theory Spec2Isabelle
  imports Complex_Main
begin

section \<open>JavaScript values\<close>

text \<open>
  The client is TypeScript; its static types are erased when it runs, so every payload,
  response body and parsed result is a JavaScript value. Numbers are the finite doubles,
  read as rationals; strings are lists of code units; an object is the list of its own
  properties in insertion order, with no key twice; \<open>JBytes\<close> is an \<open>ArrayBuffer\<close>.
\<close>

datatype jsval =
    JUndefined
  | JNull
  | JBool bool
  | JNum rat
  | JStr string
  | JArr "jsval list"
  | JObj "(string \<times> jsval) list"
  | JBytes string

text \<open>\<open>lookup kvs k\<close> is \<open>o[k]\<close> on an object with properties \<open>kvs\<close>.\<close>

definition lookup :: "(string \<times> jsval) list \<Rightarrow> string \<Rightarrow> jsval" where
  "lookup kvs k = (case map_of kvs k of None \<Rightarrow> JUndefined | Some v \<Rightarrow> v)"

text \<open>
  \<open>getprop v k\<close> is \<open>v?.k\<close>, for a key that is no built-in property of strings or
  arrays (the code reads \<open>error\<close>, \<open>message\<close>, \<open>pin\<close>, \<open>data\<close> and schema fields
  this way). It is \<open>v.k\<close> too when \<open>v\<close> is neither \<open>null\<close> nor \<open>undefined\<close>; where
  the code reads \<open>v.k\<close> on a value that may be one of them, the model throws first.
\<close>

fun getprop :: "jsval \<Rightarrow> string \<Rightarrow> jsval" where
  "getprop (JObj kvs) k = lookup kvs k"
| "getprop _ k = JUndefined"

fun truthy :: "jsval \<Rightarrow> bool" where
  "truthy JUndefined = False"
| "truthy JNull = False"
| "truthy (JBool b) = b"
| "truthy (JNum n) = (n \<noteq> 0)"
| "truthy (JStr s) = (s \<noteq> [])"
| "truthy (JArr xs) = True"
| "truthy (JObj kvs) = True"
| "truthy (JBytes b) = True"

text \<open>\<open>assign kvs k v\<close> is \<open>o[k] = v\<close>: an existing key keeps its place.\<close>

fun assign :: "(string \<times> jsval) list \<Rightarrow> string \<Rightarrow> jsval \<Rightarrow> (string \<times> jsval) list" where
  "assign [] k v = [(k, v)]"
| "assign ((k', v') # kvs) k v =
     (if k' = k then (k, v) # kvs else (k', v') # assign kvs k v)"

text \<open>\<open>spread target src\<close> is \<open>{...target, ...src}\<close> for two objects.\<close>

definition spread :: "(string \<times> jsval) list \<Rightarrow> (string \<times> jsval) list \<Rightarrow> (string \<times> jsval) list" where
  "spread target src = foldl (\<lambda>acc kv. assign acc (fst kv) (snd kv)) target src"

text \<open>\<open>fields.join(',')\<close>.\<close>

fun join_comma :: "string list \<Rightarrow> string" where
  "join_comma [] = []"
| "join_comma [x] = x"
| "join_comma (x # y # zs) = x @ '','' @ join_comma (y # zs)"




text \<open>A template literal prints a missing string as \<open>undefined\<close>.\<close>

definition template_str :: "string option \<Rightarrow> string" where
  "template_str s = (case s of None \<Rightarrow> ''undefined'' | Some t \<Rightarrow> t)"

text \<open>Decimal digits of a natural number, as \<open>${response.status}\<close> prints a status.\<close>

fun show_nat :: "nat \<Rightarrow> string" where
  "show_nat n =
     (if n < 10 then [''0123456789'' ! n]
      else show_nat (n div 10) @ [''0123456789'' ! (n mod 10)])"

declare show_nat.simps [simp del]

section \<open>HTTP and the platform\<close>

datatype http_method = GET | POST | DELETE | PUT | PATCH

text \<open>
  A request body is a string or a multipart form: the form's entries in the order they
  were appended, each a string or a blob with its file name.
\<close>

record blob =
  blob_bytes :: string
  blob_type :: string

datatype form_value = FormText string | FormFile blob string

datatype body = StrBody string | FormDataBody "(string \<times> form_value) list"

text \<open>
  \<open>FetchOptions\<close> of \<open>config.ts\<close> (its field \<open>method\<close> is \<open>method'\<close> here);
  \<open>Partial\<close> makes every field optional.
\<close>

record FetchOptions =
  method' :: "http_method option"
  headers :: "(string \<rightharpoonup> string) option"
  body :: "body option"

text \<open>What \<open>fetch(url, init)\<close> is called with.\<close>

record http_request =
  req_url :: string
  req_method :: http_method
  req_headers :: "string \<rightharpoonup> string"
  req_body :: "body option"

definition header_of :: "string \<Rightarrow> http_request \<Rightarrow> string option" where
  "header_of k call = req_headers call k"

text \<open>
  A response: \<open>json_body\<close> is what \<open>response.json()\<close> resolves to, \<open>None\<close> when
  the body text is not JSON and the promise rejects; \<open>body_blob\<close> is what
  \<open>response.blob()\<close> resolves to, and its bytes are what \<open>response.arrayBuffer()\<close> does.
\<close>

record http_response =
  status :: nat
  statusText :: string
  json_body :: "jsval option"
  body_blob :: blob

definition ok :: "http_response \<Rightarrow> bool" where
  "ok r = (200 \<le> status r \<and> status r \<le> 299)"

text \<open>
  The platform the client runs on, as parameters: \<open>fetch\<close> answers a request or fails
  (\<open>None\<close>); \<open>JSON_stringify\<close> and \<open>ToString\<close> are ECMAScript's; \<open>URL_href s ps\<close>
  is \<open>new URL(s)\<close>, then \<open>searchParams.set\<close> for each pair of \<open>ps\<close>, then
  \<open>toString()\<close>, \<open>None\<close> when the constructor throws; \<open>URLSearchParams_toString ps\<close>
  is \<open>toString()\<close> of the search parameters \<open>ps\<close>; \<open>is_url\<close> and \<open>is_email\<close> are
  the format checks of the schema library.
\<close>

record env =
  fetch :: "http_request \<Rightarrow> http_response option"
  JSON_stringify :: "jsval \<Rightarrow> string"
  ToString :: "jsval \<Rightarrow> string"
  URL_href :: "string \<Rightarrow> (string \<times> string) list \<Rightarrow> string option"
  URLSearchParams_toString :: "(string \<times> string) list \<Rightarrow> string"
  is_url :: "string \<Rightarrow> bool"
  is_email :: "string \<Rightarrow> bool"


section \<open>Schemas\<close>

text \<open>
  A schema of the validation library is a value built by \<open>z.object\<close>, \<open>z.string\<close> and
  so on; \<open>parse\<close> is its \<open>safeParse\<close>: the parsed data, or \<open>None\<close> for a failure.
  An object schema keeps the declared keys only, in the order of the declaration; a union
  gives the parse of its first option that accepts the value.
\<close>

datatype str_check = ZMin nat | ZMax nat | ZLength nat | ZUrl | ZEmail

text \<open>\<open>.int()\<close> accepts the safe integers, those of magnitude at most \<open>2^53 - 1\<close>.\<close>

datatype num_check = ZInt | ZMinValue rat | ZMaxValue rat

datatype schema =
    ZString "str_check list"
  | ZNumber "num_check list"
  | ZBoolean
  | ZLiteral string
  | ZEnum "string list"
  | ZAny
  | ZArray schema "nat option"
  | ZObject "(string \<times> schema) list"
  | ZOptional schema
  | ZDefault schema jsval
  | ZUnion "schema list"

fun str_check_ok :: "env \<Rightarrow> string \<Rightarrow> str_check \<Rightarrow> bool" where
  "str_check_ok e s (ZMin n) = (n \<le> length s)"
| "str_check_ok e s (ZMax n) = (length s \<le> n)"
| "str_check_ok e s (ZLength n) = (length s = n)"
| "str_check_ok e s ZUrl = is_url e s"
| "str_check_ok e s ZEmail = is_email e s"

fun num_check_ok :: "rat \<Rightarrow> num_check \<Rightarrow> bool" where
  "num_check_ok r ZInt = (r \<in> \<int> \<and> \<bar>r\<bar> \<le> 9007199254740991)"
| "num_check_ok r (ZMinValue n) = (n \<le> r)"
| "num_check_ok r (ZMaxValue n) = (r \<le> n)"

fun parse :: "env \<Rightarrow> schema \<Rightarrow> jsval \<Rightarrow> jsval option"
and parse_items :: "env \<Rightarrow> schema \<Rightarrow> jsval list \<Rightarrow> jsval list option"
and parse_shape :: "env \<Rightarrow> (string \<times> schema) list \<Rightarrow> (string \<times> jsval) list
                      \<Rightarrow> (string \<times> jsval) list option"
and parse_union :: "env \<Rightarrow> schema list \<Rightarrow> jsval \<Rightarrow> jsval option" where
  "parse e (ZString cs) v =
     (case v of JStr s \<Rightarrow> if list_all (str_check_ok e s) cs then Some v else None
      | _ \<Rightarrow> None)"
| "parse e (ZNumber cs) v =
     (case v of JNum r \<Rightarrow> if list_all (num_check_ok r) cs then Some v else None
      | _ \<Rightarrow> None)"
| "parse e ZBoolean v = (case v of JBool b \<Rightarrow> Some v | _ \<Rightarrow> None)"
| "parse e (ZLiteral l) v = (if v = JStr l then Some v else None)"
| "parse e (ZEnum ls) v =
     (case v of JStr s \<Rightarrow> if s \<in> set ls then Some v else None | _ \<Rightarrow> None)"
| "parse e ZAny v = Some v"
| "parse e (ZArray s m) v =
     (case v of
        JArr xs \<Rightarrow>
          (case parse_items e s xs of
             None \<Rightarrow> None
           | Some ys \<Rightarrow>
               (case m of
                  None \<Rightarrow> Some (JArr ys)
                | Some n \<Rightarrow> if length xs \<le> n then Some (JArr ys) else None))
      | _ \<Rightarrow> None)"
| "parse e (ZObject shape) v =
     (case v of
        JObj kvs \<Rightarrow> (case parse_shape e shape kvs of None \<Rightarrow> None | Some out \<Rightarrow> Some (JObj out))
      | _ \<Rightarrow> None)"
| "parse e (ZOptional s) v = (if v = JUndefined then Some JUndefined else parse e s v)"
| "parse e (ZDefault s d) v = (if v = JUndefined then Some d else parse e s v)"
| "parse e (ZUnion ss) v = parse_union e ss v"
| "parse_items e s [] = Some []"
| "parse_items e s (x # xs) =
     (case parse e s x of
        None \<Rightarrow> None
      | Some y \<Rightarrow> (case parse_items e s xs of None \<Rightarrow> None | Some ys \<Rightarrow> Some (y # ys)))"
| "parse_shape e [] kvs = Some []"
| "parse_shape e (ks # shape) kvs =
     (case parse e (snd ks) (lookup kvs (fst ks)) of
        None \<Rightarrow> None
      | Some y \<Rightarrow>
          (case parse_shape e shape kvs of
             None \<Rightarrow> None
           | Some out \<Rightarrow>
               Some (if y \<noteq> JUndefined \<or> fst ks \<in> fst ` set kvs then (fst ks, y) # out
                     else out)))"
| "parse_union e [] v = None"
| "parse_union e (s # ss) v =
     (case parse e s v of Some y \<Rightarrow> Some y | None \<Rightarrow> parse_union e ss v)"

section \<open>Configuration and errors (\<open>config.ts\<close>)\<close>

text \<open>\<open>WhatsAppConfig\<close>: the output type of \<open>WhatsAppConfigSchema\<close>.\<close>

record WhatsAppConfig =
  accessToken :: string
  phoneNumberId :: string
  wabaId :: "string option"
  version :: string
  baseUrl :: string

text \<open>
  What an operation can throw: the typed API error with its five fields as the code
  passes them (\<open>code\<close>, \<open>message\<close>, \<open>type\<close>, \<open>subcode\<close>, \<open>fbtraceId\<close>), a plain
  \<open>Error\<close> with its message, the schema library's \<open>ZodError\<close>, the \<open>SyntaxError\<close>
  of \<open>response.json()\<close> on a body that is not JSON, a \<open>TypeError\<close> (a property read
  on \<open>null\<close>, a malformed URL), and a failed \<open>fetch\<close>.
\<close>

datatype error =
    WhatsAppApiError jsval jsval jsval jsval jsval
  | Error string
  | ZodError
  | SyntaxError
  | TypeError
  | FetchFailed

text \<open>An operation yields the HTTP calls it made, in order, and its result or error.\<close>

type_synonym 'a outcome = "http_request list \<times> (error + 'a)"

definition ApiErrorSchema :: schema where
  "ApiErrorSchema =
     ZObject [(''error'', ZObject [
       (''message'', ZString []),
       (''type'', ZString []),
       (''code'', ZNumber []),
       (''error_subcode'', ZOptional (ZNumber [])),
       (''fbtrace_id'', ZString [])])]"

definition buildUrl :: "WhatsAppConfig \<Rightarrow> string \<Rightarrow> string" where
  "buildUrl cfg path = baseUrl cfg @ ''/'' @ version cfg @ ''/'' @ path"

text \<open>\<open>options.body && !(options.body instanceof FormData)\<close>.\<close>

fun json_content :: "body option \<Rightarrow> bool" where
  "json_content None = False"
| "json_content (Some (StrBody s)) = (s \<noteq> [])"
| "json_content (Some (FormDataBody f)) = False"

definition request_headers :: "WhatsAppConfig \<Rightarrow> FetchOptions \<Rightarrow> (string \<rightharpoonup> string)" where
  "request_headers cfg options =
     (let hs = [''Authorization'' \<mapsto> ''Bearer '' @ accessToken cfg]
               ++ (case headers options of None \<Rightarrow> Map.empty | Some h \<Rightarrow> h)
      in if json_content (body options) then hs(''Content-Type'' \<mapsto> ''application/json'')
         else hs)"

definition request_call :: "WhatsAppConfig \<Rightarrow> string \<Rightarrow> FetchOptions \<Rightarrow> http_request" where
  "request_call cfg path options =
     \<lparr> req_url = buildUrl cfg path,
       req_method = (case method' options of None \<Rightarrow> GET | Some m \<Rightarrow> m),
       req_headers = request_headers cfg options,
       req_body = body options \<rparr>"

definition request :: "env \<Rightarrow> WhatsAppConfig \<Rightarrow> string \<Rightarrow> FetchOptions \<Rightarrow> jsval outcome" where
  "request e cfg path options =
     (let call = request_call cfg path options in
      case fetch e call of
        None \<Rightarrow> ([call], Inl FetchFailed)
      | Some response \<Rightarrow>
          (case json_body response of
             None \<Rightarrow> ([call], Inl SyntaxError)
           | Some data \<Rightarrow>
               if \<not> ok response then
                 (case parse e ApiErrorSchema data of
                    Some parsed \<Rightarrow>
                      (let err = getprop parsed ''error'' in
                       ([call], Inl (WhatsAppApiError
                          (getprop err ''code'') (getprop err ''message'') (getprop err ''type'')
                          (getprop err ''error_subcode'') (getprop err ''fbtrace_id''))))
                  | None \<Rightarrow>
                      ([call], Inl (Error (''API request failed with status ''
                          @ show_nat (status response) @ '': '' @ JSON_stringify e data))))
               else ([call], Inr data)))"

text \<open>The option records the services pass to \<open>request\<close>.\<close>

definition get_options :: FetchOptions where
  "get_options = \<lparr> method' = Some GET, headers = None, body = None \<rparr>"

definition post_options :: "body option \<Rightarrow> FetchOptions" where
  "post_options b = \<lparr> method' = Some POST, headers = None, body = b \<rparr>"

text \<open>\<open>Schema.parse(x)\<close>: the parsed data, or a thrown \<open>ZodError\<close>.\<close>

definition parse_or_throw :: "env \<Rightarrow> schema \<Rightarrow> jsval \<Rightarrow> error + jsval" where
  "parse_or_throw e s v = (case parse e s v of None \<Rightarrow> Inl ZodError | Some d \<Rightarrow> Inr d)"

text \<open>\<open>return Schema.parse(await this.request(...))\<close>.\<close>

definition validated :: "env \<Rightarrow> schema \<Rightarrow> jsval outcome \<Rightarrow> jsval outcome" where
  "validated e s r =
     (case snd r of Inl err \<Rightarrow> (fst r, Inl err) | Inr data \<Rightarrow> (fst r, parse_or_throw e s data))"

section \<open>Services built on the transport primitive\<close>

subsection \<open>\<open>TwoStepVerificationService\<close>\<close>

definition TwoStepVerificationPinSchema :: schema where
  "TwoStepVerificationPinSchema = ZObject [(''pin'', ZString [ZLength 6])]"

definition TwoStepVerificationResponseSchema :: schema where
  "TwoStepVerificationResponseSchema = ZObject [(''success'', ZBoolean)]"

definition setPin :: "env \<Rightarrow> WhatsAppConfig \<Rightarrow> string \<Rightarrow> jsval outcome" where
  "setPin e cfg pin =
     (case parse_or_throw e TwoStepVerificationPinSchema (JObj [(''pin'', JStr pin)]) of
        Inl err \<Rightarrow> ([], Inl err)
      | Inr payload \<Rightarrow>
          validated e TwoStepVerificationResponseSchema
            (request e cfg (phoneNumberId cfg)
               (post_options (Some (StrBody (JSON_stringify e payload))))))"


subsection \<open>\<open>BusinessService\<close>\<close>

definition vertical_values :: "string list" where
  "vertical_values =
     [''AUTOMOTIVE'', ''BEAUTY'', ''APPAREL'', ''EDU'', ''ENTERTAIN'', ''EVENT_PLAN'',
      ''FINANCE'', ''GROCERY'', ''GOVT'', ''HOTEL'', ''HEALTH'', ''NONPROFIT'',
      ''PROF_SERVICES'', ''RETAIL'', ''TRAVEL'', ''RESTAURANT'', ''NOT_A_BIZ'']"

definition BusinessProfileSchema :: schema where
  "BusinessProfileSchema =
     ZObject [
       (''about'', ZOptional (ZString [ZMax 256])),
       (''address'', ZOptional (ZString [ZMax 256])),
       (''description'', ZOptional (ZString [ZMax 512])),
       (''email'', ZOptional (ZString [ZEmail])),
       (''messaging_product'', ZLiteral ''whatsapp''),
       (''profile_picture_url'', ZOptional (ZString [ZUrl])),
       (''websites'', ZOptional (ZArray (ZString [ZUrl]) (Some 2))),
       (''vertical'', ZOptional (ZEnum vertical_values))]"

definition UpdateBusinessProfileResponseSchema :: schema where
  "UpdateBusinessProfileResponseSchema = ZObject [(''success'', ZBoolean)]"

definition CommerceSettingsResponseSchema :: schema where
  "CommerceSettingsResponseSchema =
     ZObject [(''data'', ZArray (ZObject [
       (''id'', ZString []),
       (''is_catalog_visible'', ZBoolean),
       (''is_cart_enabled'', ZBoolean)]) None)]"

text \<open>\<open>profile\<close> is an object, given by its properties.\<close>

definition updateProfile :: "env \<Rightarrow> WhatsAppConfig \<Rightarrow> (string \<times> jsval) list \<Rightarrow> jsval outcome" where
  "updateProfile e cfg profile =
     (let payload = JObj (spread [(''messaging_product'', JStr ''whatsapp'')] profile) in
      validated e UpdateBusinessProfileResponseSchema
        (request e cfg (phoneNumberId cfg @ ''/whatsapp_business_profile'')
           (post_options (Some (StrBody (JSON_stringify e payload))))))"

text \<open>\<open>!this.config.wabaId\<close>: the identifier is missing or the empty string.\<close>

definition no_wabaId :: "WhatsAppConfig \<Rightarrow> bool" where
  "no_wabaId cfg = (case wabaId cfg of None \<Rightarrow> True | Some w \<Rightarrow> w = [])"

definition getCommerceSettings :: "env \<Rightarrow> WhatsAppConfig \<Rightarrow> jsval outcome" where
  "getCommerceSettings e cfg =
     (if no_wabaId cfg then ([], Inl (Error ''wabaId is required to get commerce settings''))
      else validated e CommerceSettingsResponseSchema
             (request e cfg
                (template_str (wabaId cfg)
                   @ ''/whatsapp_commerce_settings?fields=is_catalog_visible,is_cart_enabled'')
                get_options))"

definition updateCommerceSettings :: "env \<Rightarrow> WhatsAppConfig \<Rightarrow> jsval \<Rightarrow> jsval outcome" where
  "updateCommerceSettings e cfg settings =
     (if no_wabaId cfg then ([], Inl (Error ''wabaId is required to update commerce settings''))
      else validated e UpdateBusinessProfileResponseSchema
             (request e cfg (template_str (wabaId cfg) @ ''/whatsapp_commerce_settings'')
                (post_options (Some (StrBody (JSON_stringify e settings))))))"







subsection \<open>\<open>MediaService\<close>\<close>















subsection \<open>\<open>QRCodesService\<close>\<close>

definition UpdateQRCodeSchema :: schema where
  "UpdateQRCodeSchema = ZObject [(''prefilled_message'', ZString [ZMax 1000])]"

definition QRCodeDeleteResponseSchema :: schema where
  "QRCodeDeleteResponseSchema = ZObject [(''success'', ZBoolean)]"








definition QRCodesService_update :: "env \<Rightarrow> WhatsAppConfig \<Rightarrow> string \<Rightarrow> jsval \<Rightarrow> jsval outcome" where
  "QRCodesService_update e cfg qrCodeId updates =
     (case parse_or_throw e UpdateQRCodeSchema updates of
        Inl err \<Rightarrow> ([], Inl err)
      | Inr validatedUpdates \<Rightarrow>
          request e cfg (phoneNumberId cfg @ ''/message_qrdls/'' @ qrCodeId)
            (post_options (Some (StrBody (JSON_stringify e validatedUpdates)))))"

definition QRCodesService_delete :: "env \<Rightarrow> WhatsAppConfig \<Rightarrow> string \<Rightarrow> jsval outcome" where
  "QRCodesService_delete e cfg qrCodeId =
     validated e QRCodeDeleteResponseSchema
       (request e cfg (phoneNumberId cfg @ ''/message_qrdls/'' @ qrCodeId)
          \<lparr> method' = Some DELETE, headers = None, body = None \<rparr>)"

subsection \<open>\<open>RegistrationService\<close>\<close>














text \<open>
  \<open>settings.pin\<close> throws on \<open>null\<close> and \<open>undefined\<close>; the spread of
  \<open>settings.pin && { pin: settings.pin }\<close> adds the pin when it is truthy.
\<close>

definition updateSettings :: "env \<Rightarrow> WhatsAppConfig \<Rightarrow> jsval \<Rightarrow> jsval outcome" where
  "updateSettings e cfg settings =
     (if settings = JUndefined \<or> settings = JNull then ([], Inl TypeError)
      else
        (let pin = getprop settings ''pin'';
             payload = JObj ((''messaging_product'', JStr ''whatsapp'')
                             # (if truthy pin then [(''pin'', pin)] else []))
         in request e cfg (phoneNumberId cfg)
              (post_options (Some (StrBody (JSON_stringify e payload))))))"

subsection \<open>\<open>TemplatesService\<close>\<close>

definition template_categories :: "string list" where
  "template_categories = [''AUTHENTICATION'', ''MARKETING'', ''UTILITY'']"

definition CreateTemplateSchema :: schema where
  "CreateTemplateSchema =
     ZObject [
       (''name'', ZString []),
       (''language'', ZString []),
       (''category'', ZEnum template_categories),
       (''components'', ZArray (ZObject [
          (''type'', ZEnum [''HEADER'', ''BODY'', ''FOOTER'', ''BUTTONS'', ''CAROUSEL'']),
          (''format'', ZOptional (ZEnum [''TEXT'', ''IMAGE'', ''VIDEO'', ''DOCUMENT'', ''LOCATION''])),
          (''text'', ZOptional (ZString [])),
          (''buttons'', ZOptional (ZArray (ZObject [
             (''type'', ZEnum [''PHONE_NUMBER'', ''URL'', ''QUICK_REPLY'', ''COPY_CODE'']),
             (''text'', ZString []),
             (''url'', ZOptional (ZString [])),
             (''phone_number'', ZOptional (ZString [])),
             (''example'', ZOptional (ZArray (ZString []) None))]) None)),
          (''example'', ZOptional (ZObject [
             (''header_text'', ZOptional (ZArray (ZString []) None)),
             (''header_handle'', ZOptional (ZArray (ZString []) None)),
             (''body_text'', ZOptional (ZArray (ZArray (ZString []) None) None))])),
          (''cards'', ZOptional (ZArray (ZObject [
             (''components'', ZArray ZAny None)]) None))]) None),
       (''allow_category_change'', ZOptional ZBoolean)]"

definition TemplateResponseSchema :: schema where
  "TemplateResponseSchema =
     ZObject [
       (''id'', ZString []),
       (''status'', ZEnum [''PENDING'', ''APPROVED'', ''REJECTED'', ''PAUSED'', ''DISABLED'']),
       (''category'', ZEnum template_categories),
       (''name'', ZOptional (ZString [])),
       (''language'', ZOptional (ZString [])),
       (''rejected_reason'', ZOptional (ZString []))]"

definition TemplatesService_create :: "env \<Rightarrow> WhatsAppConfig \<Rightarrow> jsval \<Rightarrow> jsval outcome" where
  "TemplatesService_create e cfg template =
     (case parse_or_throw e CreateTemplateSchema template of
        Inl err \<Rightarrow> ([], Inl err)
      | Inr validatedTemplate \<Rightarrow>
          validated e TemplateResponseSchema
            (request e cfg (template_str (wabaId cfg) @ ''/message_templates'')
               (post_options (Some (StrBody (JSON_stringify e validatedTemplate))))))"











section \<open>Services that call \<open>fetch\<close> themselves\<close>

text \<open>
  \<open>WebhooksService\<close> and \<open>WABAService\<close> do not extend \<open>BaseService\<close>: each keeps its own
  \<open>baseUrl\<close> field, set by its constructor, and each method calls \<open>fetch\<close> directly.
\<close>

text \<open>\<open>error.error?.message || response.statusText\<close>, \<open>None\<close> when the read throws.\<close>

definition failure_detail :: "jsval \<Rightarrow> http_response \<Rightarrow> jsval option" where
  "failure_detail err response =
     (if err = JUndefined \<or> err = JNull then None
      else
        (let inner = getprop err ''error'';
             msg = (if inner = JUndefined \<or> inner = JNull then JUndefined
                    else getprop inner ''message'')
         in Some (if truthy msg then msg else JStr (statusText response))))"

text \<open>
  The tail every such method shares: on a status outside 200..299 read the body and throw
  an \<open>Error\<close> whose message starts with the method's prefix; otherwise read the body and
  parse it with the method's response schema.
\<close>

definition respond :: "env \<Rightarrow> http_request \<Rightarrow> string \<Rightarrow> schema \<Rightarrow> jsval outcome" where
  "respond e call prefix s =
     (case fetch e call of
        None \<Rightarrow> ([call], Inl FetchFailed)
      | Some response \<Rightarrow>
          if \<not> ok response then
            (case json_body response of
               None \<Rightarrow> ([call], Inl SyntaxError)
             | Some err \<Rightarrow>
                 (case failure_detail err response of
                    None \<Rightarrow> ([call], Inl TypeError)
                  | Some d \<Rightarrow> ([call], Inl (Error (prefix @ ToString e d)))))
          else
            (case json_body response of
               None \<Rightarrow> ([call], Inl SyntaxError)
             | Some data \<Rightarrow> ([call], parse_or_throw e s data)))"

subsection \<open>\<open>WebhooksService\<close>\<close>

definition SubscriptionSchema :: schema where
  "SubscriptionSchema = ZObject [(''success'', ZBoolean)]"


definition SubscribeOptionsSchema :: schema where
  "SubscribeOptionsSchema =
     ZObject [
       (''override_callback_uri'', ZOptional (ZString [ZUrl])),
       (''verify_token'', ZOptional (ZString []))]"

definition WebhooksService_baseUrl :: "WhatsAppConfig \<Rightarrow> string" where
  "WebhooksService_baseUrl cfg = ''https://graph.facebook.com/'' @ version cfg"

definition bearer :: "WhatsAppConfig \<Rightarrow> (string \<rightharpoonup> string)" where
  "bearer cfg = [''Authorization'' \<mapsto> ''Bearer '' @ accessToken cfg]"

text \<open>
  The callback entries both subscribe methods add to their body: each of the two options
  that is truthy in the validated options.
\<close>

definition callback_entries :: "jsval \<Rightarrow> (string \<times> jsval) list" where
  "callback_entries validatedOptions =
     (let uri = getprop validatedOptions ''override_callback_uri'';
          tok = getprop validatedOptions ''verify_token''
      in (if truthy uri then [(''override_callback_uri'', uri)] else [])
         @ (if truthy tok then [(''verify_token'', tok)] else []))"

text \<open>\<open>options\<close> is \<open>JUndefined\<close> when the caller leaves it out.\<close>

definition subscribe :: "env \<Rightarrow> WhatsAppConfig \<Rightarrow> string \<Rightarrow> jsval \<Rightarrow> jsval outcome" where
  "subscribe e cfg wabaId' options =
     (case (if truthy options then parse_or_throw e SubscribeOptionsSchema options
            else Inr JUndefined) of
        Inl err \<Rightarrow> ([], Inl err)
      | Inr validatedOptions \<Rightarrow>
          (case URL_href e (WebhooksService_baseUrl cfg @ ''/'' @ wabaId' @ ''/subscribed_apps'') [] of
             None \<Rightarrow> ([], Inl TypeError)
           | Some url \<Rightarrow>
               (let b = callback_entries validatedOptions
                in respond e
                     \<lparr> req_url = url, req_method = POST,
                       req_headers = (bearer cfg)(''Content-Type'' \<mapsto> ''application/json''),
                       req_body = (if b \<noteq> [] then Some (StrBody (JSON_stringify e (JObj b)))
                                   else None) \<rparr>
                     ''Failed to subscribe to WABA: '' SubscriptionSchema)))"





text \<open>An optional string argument: \<open>undefined\<close> when the caller leaves it out.\<close>

definition optional_str :: "string option \<Rightarrow> jsval" where
  "optional_str s = (case s of None \<Rightarrow> JUndefined | Some t \<Rightarrow> JStr t)"

definition updateCallbackUrl :: "env \<Rightarrow> WhatsAppConfig \<Rightarrow> string \<Rightarrow> string \<Rightarrow> string option \<Rightarrow> jsval outcome" where
  "updateCallbackUrl e cfg wabaId' callbackUrl verifyToken =
     subscribe e cfg wabaId'
       (JObj [(''override_callback_uri'', JStr callbackUrl),
              (''verify_token'', optional_str verifyToken)])"


subsection \<open>\<open>WABAService\<close>\<close>

definition WABASchema :: schema where
  "WABASchema =
     ZObject [
       (''id'', ZString []),
       (''name'', ZOptional (ZString [])),
       (''timezone_id'', ZOptional (ZString [])),
       (''message_template_namespace'', ZOptional (ZString [])),
       (''account_review_status'', ZOptional (ZEnum [''APPROVED'', ''PENDING'', ''REJECTED''])),
       (''business_verification_status'', ZOptional (ZEnum [''VERIFIED'', ''UNVERIFIED'', ''PENDING''])),
       (''currency'', ZOptional (ZString [])),
       (''owner_business_info'', ZOptional (ZObject [
          (''id'', ZString []),
          (''name'', ZOptional (ZString [])),
          (''verification_status'', ZOptional (ZString []))]))]"

definition WABAService_baseUrl :: "WhatsAppConfig \<Rightarrow> string" where
  "WABAService_baseUrl cfg = ''https://graph.facebook.com/'' @ version cfg"

text \<open>The string handed to \<open>new URL\<close> by \<open>get\<close>.\<close>

definition WABAService_get_target :: "WhatsAppConfig \<Rightarrow> string \<Rightarrow> string" where
  "WABAService_get_target cfg wabaId' = WABAService_baseUrl cfg @ ''/'' @ wabaId'"

definition WABAService_get :: "env \<Rightarrow> WhatsAppConfig \<Rightarrow> string \<Rightarrow> string list option \<Rightarrow> jsval outcome" where
  "WABAService_get e cfg wabaId' fields' =
     (case URL_href e (WABAService_get_target cfg wabaId')
             (case fields' of
                None \<Rightarrow> []
              | Some fs \<Rightarrow> if fs \<noteq> [] then [(''fields'', join_comma fs)] else []) of
        None \<Rightarrow> ([], Inl TypeError)
      | Some url \<Rightarrow>
          respond e
            \<lparr> req_url = url, req_method = GET, req_headers = bearer cfg, req_body = None \<rparr>
            ''Failed to get WABA: '' WABASchema)"











subsection \<open>\<open>PhoneNumbersService\<close>\<close>















section \<open>The operations as one type\<close>





text \<open>The call \<open>request\<close> makes to post a payload as JSON.\<close>

definition json_post :: "env \<Rightarrow> WhatsAppConfig \<Rightarrow> string \<Rightarrow> jsval \<Rightarrow> http_request" where
  "json_post e cfg path payload =
     request_call cfg path (post_options (Some (StrBody (JSON_stringify e payload))))"

section \<open>Webhook change schemas\<close>

definition TemplateQualityScoreSchema :: schema where
  "TemplateQualityScoreSchema = ZEnum [''GREEN'', ''RED'', ''YELLOW'', ''UNKNOWN'']"

definition TemplateQualityUpdateValueSchema :: schema where
  "TemplateQualityUpdateValueSchema =
     ZObject [
       (''previous_quality_score'', TemplateQualityScoreSchema),
       (''new_quality_score'', TemplateQualityScoreSchema),
       (''message_template_id'', ZNumber [ZInt]),
       (''message_template_name'', ZString []),
       (''message_template_language'', ZString [])]"

definition TemplateQualityUpdateChangeSchema :: schema where
  "TemplateQualityUpdateChangeSchema =
     ZObject [
       (''value'', TemplateQualityUpdateValueSchema),
       (''field'', ZLiteral ''message_template_status_update'')]"

definition TemplateButtonTypeSchema :: schema where
  "TemplateButtonTypeSchema =
     ZEnum [''CATALOG'', ''COPY_CODE'', ''EXTENSION'', ''FLOW'', ''MPM'', ''ORDER_DETAILS'',
            ''OTP'', ''PHONE_NUMBER'', ''POSTBACK'', ''REMINDER'', ''SEND_LOCATION'', ''SPM'',
            ''QUICK_REPLY'', ''URL'', ''VOICE_CALL'']"

definition TemplateButtonSchema :: schema where
  "TemplateButtonSchema =
     ZObject [
       (''message_template_button_type'', TemplateButtonTypeSchema),
       (''message_template_button_text'', ZString []),
       (''message_template_button_url'', ZOptional (ZString [])),
       (''message_template_button_phone_number'', ZOptional (ZString []))]"

definition TemplateComponentsUpdateValueSchema :: schema where
  "TemplateComponentsUpdateValueSchema =
     ZObject [
       (''message_template_id'', ZNumber [ZInt]),
       (''message_template_name'', ZString []),
       (''message_template_language'', ZString []),
       (''message_template_element'', ZString []),
       (''message_template_title'', ZOptional (ZString [])),
       (''message_template_footer'', ZOptional (ZString [])),
       (''message_template_buttons'', ZOptional (ZArray TemplateButtonSchema None))]"

definition TemplateComponentsUpdateChangeSchema :: schema where
  "TemplateComponentsUpdateChangeSchema =
     ZObject [
       (''value'', TemplateComponentsUpdateValueSchema),
       (''field'', ZLiteral ''message_template_components_update'')]"

section \<open>A platform for the examples\<close>

text \<open>
  \<open>platform r\<close> answers every request with \<open>r\<close>. Its serialisers are placeholders and
  its URL class returns the string it was given (with the first search parameter, if any);
  every schema format check passes.
\<close>

definition platform :: "http_response option \<Rightarrow> env" where
  "platform r =
     \<lparr> fetch = (\<lambda>call. r),
       JSON_stringify = (\<lambda>v. ''{}''),
       ToString = (\<lambda>v. case v of JStr s \<Rightarrow> s | _ \<Rightarrow> ''[object Object]''),
       URL_href = (\<lambda>s ps. Some (case ps of [] \<Rightarrow> s | p # _ \<Rightarrow> s @ ''?'' @ fst p @ ''='' @ snd p)),
       URLSearchParams_toString = (\<lambda>ps. case ps of [] \<Rightarrow> [] | p # _ \<Rightarrow> fst p @ ''='' @ snd p),
       is_url = (\<lambda>s. True),
       is_email = (\<lambda>s. True) \<rparr>"


definition sample_config :: WhatsAppConfig where
  "sample_config =
     \<lparr> accessToken = ''token'', phoneNumberId = ''1055'', wabaId = None,
       version = ''v21.0'', baseUrl = ''https://graph.facebook.com'' \<rparr>"

definition local_config :: WhatsAppConfig where
  "local_config = sample_config \<lparr> baseUrl := ''http://localhost:8080'' \<rparr>"

definition json_response :: "nat \<Rightarrow> string \<Rightarrow> jsval \<Rightarrow> http_response" where
  "json_response st txt data =
     \<lparr> status = st, statusText = txt, json_body = Some data,
       body_blob = \<lparr> blob_bytes = [], blob_type = ''application/json'' \<rparr> \<rparr>"

text \<open>A gateway's answer whose body is an HTML page, not JSON.\<close>

definition gateway_error :: http_response where
  "gateway_error =
     \<lparr> status = 502, statusText = ''Bad Gateway'', json_body = None,
       body_blob = \<lparr> blob_bytes = [], blob_type = ''text/html'' \<rparr> \<rparr>"

definition invalid_parameter :: jsval where
  "invalid_parameter =
     JObj [(''error'', JObj [
       (''message'', JStr ''Invalid parameter''),
       (''type'', JStr ''OAuthException''),
       (''code'', JNum 100),
       (''fbtrace_id'', JStr ''abc123'')])]"

text \<open>Options whose caller sets its own \<open>Authorization\<close> header and an empty string body.\<close>

definition override_options :: FetchOptions where
  "override_options =
     \<lparr> method' = None, headers = Some [''Authorization'' \<mapsto> ''Basic abc''],
       body = Some (StrBody []) \<rparr>"

definition minimal_template :: jsval where
  "minimal_template =
     JObj [(''name'', JStr ''order_confirmation''), (''language'', JStr ''en_US''),
           (''category'', JStr ''UTILITY''),
           (''components'', JArr [JObj [(''type'', JStr ''BODY''),
                                        (''text'', JStr ''Your order is confirmed'')]])]"

definition malformed_success :: jsval where
  "malformed_success = JObj [(''success'', JStr ''yes'')]"

definition quality_value :: jsval where
  "quality_value =
     JObj [(''previous_quality_score'', JStr ''GREEN''), (''new_quality_score'', JStr ''YELLOW''),
           (''message_template_id'', JNum 1234),
           (''message_template_name'', JStr ''order_confirmation''),
           (''message_template_language'', JStr ''en_US'')]"



text \<open>A profile whose \<open>about\<close> has 257 characters.\<close>

definition overlong_profile :: "(string \<times> jsval) list" where
  "overlong_profile = [(''about'', JStr (replicate 257 CHR ''a''))]"

section \<open>Facts about parsing\<close>

lemma parse_shape_keys:
  "parse_shape e shape kvs = Some out \<Longrightarrow> k \<in> fst ` set out \<Longrightarrow> k \<in> fst ` set shape"
proof (induction shape arbitrary: out)
  case Nil
  then show ?case by simp
next
  case (Cons ks shape)
  from Cons.prems(1) obtain y out' where
    out': "parse_shape e shape kvs = Some out'" and
    out: "out = (if y \<noteq> JUndefined \<or> fst ks \<in> fst ` set kvs then (fst ks, y) # out' else out')"
    by (auto split: option.splits)
  from out Cons.prems(2) have "k = fst ks \<or> k \<in> fst ` set out'"
    by (auto split: if_splits)
  then show ?case using Cons.IH[OF out'] by auto
qed

lemma lookup_absent: "k \<notin> fst ` set kvs \<Longrightarrow> lookup kvs k = JUndefined"
proof -
  assume "k \<notin> fst ` set kvs"
  then have "map_of kvs k = None" by (simp add: map_of_eq_None_iff)
  then show ?thesis by (simp add: lookup_def)
qed

lemma lookup_Cons: "lookup ((k', v) # kvs) k = (if k = k' then v else lookup kvs k)"
  by (simp add: lookup_def)

text \<open>A parsed object holds, under each declared key, the parse of the input's value there.\<close>

lemma parse_shape_lookup:
  "parse_shape e shape kvs = Some out \<Longrightarrow> distinct (map fst shape) \<Longrightarrow> (k, s) \<in> set shape
   \<Longrightarrow> parse e s (lookup kvs k) = Some (lookup out k)"
proof (induction shape arbitrary: out)
  case Nil
  then show ?case by simp
next
  case (Cons ks shape)
  from Cons.prems(1) obtain y out' where
    y: "parse e (snd ks) (lookup kvs (fst ks)) = Some y" and
    out': "parse_shape e shape kvs = Some out'" and
    out: "out = (if y \<noteq> JUndefined \<or> fst ks \<in> fst ` set kvs then (fst ks, y) # out' else out')"
    by (auto split: option.splits)
  show ?case
  proof (cases "(k, s) = ks")
    case True
    then have k: "fst ks = k" "snd ks = s" by auto
    have "k \<notin> fst ` set shape"
      using Cons.prems(2) k by auto
    then have "k \<notin> fst ` set out'"
      using parse_shape_keys[OF out'] by blast
    then have "lookup out' k = JUndefined" by (rule lookup_absent)
    then have "lookup out k = y"
      using out k by (auto simp: lookup_Cons)
    then show ?thesis using y k by simp
  next
    case False
    then have mem: "(k, s) \<in> set shape" using Cons.prems(3) by auto
    then have kin: "k \<in> fst ` set shape" by force
    have "fst ks \<notin> fst ` set shape" using Cons.prems(2) by simp
    then have "k \<noteq> fst ks" using kin by blast
    then have "lookup out k = lookup out' k"
      using out by (auto simp: lookup_Cons)
    moreover have "parse e s (lookup kvs k) = Some (lookup out' k)"
      using Cons.IH[OF out' _ mem] Cons.prems(2) by simp
    ultimately show ?thesis by simp
  qed
qed

lemma parse_object_cases:
  "parse e (ZObject shape) v = Some w \<Longrightarrow>
   \<exists>kvs out. v = JObj kvs \<and> w = JObj out \<and> parse_shape e shape kvs = Some out"
  by (cases v) (auto split: option.splits)

lemma parse_field:
  assumes "parse e (ZObject shape) v = Some w" "distinct (map fst shape)" "(k, s) \<in> set shape"
  shows "parse e s (getprop v k) = Some (getprop w k)"
proof -
  from assms(1) obtain kvs out where
    "v = JObj kvs" "w = JObj out" "parse_shape e shape kvs = Some out"
    using parse_object_cases by blast
  then show ?thesis using parse_shape_lookup[OF _ assms(2,3)] by simp
qed

lemma parse_string_id: "parse e (ZString cs) v = Some w \<Longrightarrow> w = v"
  by (cases v) (auto split: if_splits)

lemma parse_number_id: "parse e (ZNumber cs) v = Some w \<Longrightarrow> w = v"
  by (cases v) (auto split: if_splits)

lemma parse_optional_number_id: "parse e (ZOptional (ZNumber cs)) v = Some w \<Longrightarrow> w = v"
  by (cases v) (auto split: if_splits)

lemma parse_literal_id: "parse e (ZLiteral l) v = Some w \<Longrightarrow> v = JStr l"
  by (simp split: if_splits)

text \<open>The error envelope's five fields pass through \<open>safeParse\<close> unchanged.\<close>

lemma ApiError_fields:
  assumes "parse e ApiErrorSchema data = Some parsed"
  shows "getprop (getprop parsed ''error'') ''code'' = getprop (getprop data ''error'') ''code''"
    and "getprop (getprop parsed ''error'') ''message'' = getprop (getprop data ''error'') ''message''"
    and "getprop (getprop parsed ''error'') ''type'' = getprop (getprop data ''error'') ''type''"
    and "getprop (getprop parsed ''error'') ''error_subcode'' = getprop (getprop data ''error'') ''error_subcode''"
    and "getprop (getprop parsed ''error'') ''fbtrace_id'' = getprop (getprop data ''error'') ''fbtrace_id''"
proof -
  let ?inner = "[(''message'', ZString []), (''type'', ZString []), (''code'', ZNumber []),
       (''error_subcode'', ZOptional (ZNumber [])), (''fbtrace_id'', ZString [])]"
  have inner: "parse e (ZObject ?inner) (getprop data ''error'') = Some (getprop parsed ''error'')"
    using assms unfolding ApiErrorSchema_def by (rule parse_field) simp_all
  have d: "distinct (map fst ?inner)" by simp
  have "parse e (ZNumber []) (getprop (getprop data ''error'') ''code'')
          = Some (getprop (getprop parsed ''error'') ''code'')"
    using inner d by (rule parse_field) simp
  then show "getprop (getprop parsed ''error'') ''code'' = getprop (getprop data ''error'') ''code''"
    by (rule parse_number_id)
  have "parse e (ZString []) (getprop (getprop data ''error'') ''message'')
          = Some (getprop (getprop parsed ''error'') ''message'')"
    using inner d by (rule parse_field) simp
  then show "getprop (getprop parsed ''error'') ''message'' = getprop (getprop data ''error'') ''message''"
    by (rule parse_string_id)
  have "parse e (ZString []) (getprop (getprop data ''error'') ''type'')
          = Some (getprop (getprop parsed ''error'') ''type'')"
    using inner d by (rule parse_field) simp
  then show "getprop (getprop parsed ''error'') ''type'' = getprop (getprop data ''error'') ''type''"
    by (rule parse_string_id)
  have "parse e (ZOptional (ZNumber [])) (getprop (getprop data ''error'') ''error_subcode'')
          = Some (getprop (getprop parsed ''error'') ''error_subcode'')"
    using inner d by (rule parse_field) simp
  then show "getprop (getprop parsed ''error'') ''error_subcode'' = getprop (getprop data ''error'') ''error_subcode''"
    by (rule parse_optional_number_id)
  have "parse e (ZString []) (getprop (getprop data ''error'') ''fbtrace_id'')
          = Some (getprop (getprop parsed ''error'') ''fbtrace_id'')"
    using inner d by (rule parse_field) simp
  then show "getprop (getprop parsed ''error'') ''fbtrace_id'' = getprop (getprop data ''error'') ''fbtrace_id''"
    by (rule parse_string_id)
qed

section \<open>Facts about the transport primitive\<close>

text \<open>\<open>request\<close> calls \<open>fetch\<close> exactly once, whatever the answer.\<close>

lemma request_calls: "fst (request e cfg path options) = [request_call cfg path options]"
  by (simp add: request_def Let_def split: option.splits)

lemma request_url:
  "map req_url (fst (request e cfg path options))
     = [baseUrl cfg @ ''/'' @ version cfg @ ''/'' @ path]"
  by (simp add: request_calls request_call_def buildUrl_def)

lemma validated_calls: "fst (validated e s r) = fst r"
  by (simp add: validated_def split: sum.splits)

lemma validated_error: "snd r = Inl err \<Longrightarrow> snd (validated e s r) = Inl err"
  by (simp add: validated_def)

lemma validated_rejects:
  "snd r = Inr data \<Longrightarrow> parse e s data = None \<Longrightarrow> snd (validated e s r) = Inl ZodError"
  by (simp add: validated_def parse_or_throw_def)

text \<open>\<open>updateProfile\<close> posts the spread payload as it is; no schema sees it first.\<close>

lemma updateProfile_calls:
  "fst (updateProfile e cfg profile) =
     [request_call cfg (phoneNumberId cfg @ ''/whatsapp_business_profile'')
        (post_options (Some (StrBody (JSON_stringify e
           (JObj (spread [(''messaging_product'', JStr ''whatsapp'')] profile))))))]"
  by (simp add: updateProfile_def Let_def validated_calls request_calls)

text \<open>The commerce settings operations stop before the network without an identifier.\<close>

lemma getCommerceSettings_requires_wabaId:
  "no_wabaId cfg \<Longrightarrow>
   getCommerceSettings e cfg = ([], Inl (Error ''wabaId is required to get commerce settings''))"
  by (simp add: getCommerceSettings_def)

lemma updateCommerceSettings_requires_wabaId:
  "no_wabaId cfg \<Longrightarrow>
   updateCommerceSettings e cfg settings
     = ([], Inl (Error ''wabaId is required to update commerce settings''))"
  by (simp add: updateCommerceSettings_def)

lemma json_content_iff: "json_content b \<longleftrightarrow> (\<exists>s. b = Some (StrBody s) \<and> s \<noteq> [])"
  by (cases b rule: json_content.cases) auto

section \<open>Facts about what an operation returns\<close>







text \<open>
  The profile with the 257-character \<open>about\<close> fails \<open>BusinessProfileSchema\<close>, and
  \<open>updateProfile\<close> posts it all the same.
\<close>

lemma updateProfile_posts_overlong_about:
  "parse e BusinessProfileSchema
     (JObj (spread [(''messaging_product'', JStr ''whatsapp'')] overlong_profile)) = None
   \<and> fst (updateProfile e sample_config overlong_profile)
       = [json_post e sample_config ''1055/whatsapp_business_profile''
            (JObj [(''messaging_product'', JStr ''whatsapp''),
                   (''about'', JStr (replicate 257 CHR ''a''))])]"
  by (simp add: BusinessProfileSchema_def spread_def overlong_profile_def lookup_def
      updateProfile_calls json_post_def sample_config_def)

section \<open>URL resolution\<close>

text \<open>
  C1. The URL of an operation is \<open>{baseUrl}/{version}/{path}\<close>. \<open>BaseService\<close> builds it so
  (\<open>request_url\<close>), but \<open>WABAService\<close> does not: with the base origin configured as
  \<open>http://localhost:8080\<close>, \<open>buildUrl\<close> gives \<open>http://localhost:8080/v21.0/123\<close>, while
  \<open>WABAService.get('123')\<close> hands \<open>https://graph.facebook.com/v21.0/123\<close> to the URL class
  and fetches what comes back, so the configured origin is ignored.
\<close>

theorem WABAService_ignores_baseUrl:
  "buildUrl local_config ''123'' = ''http://localhost:8080/v21.0/123''
   \<and> WABAService_get_target local_config ''123'' = ''https://graph.facebook.com/v21.0/123''
   \<and> fst (WABAService_get e local_config ''123'' None)
       = (case URL_href e ''https://graph.facebook.com/v21.0/123'' [] of
            None \<Rightarrow> []
          | Some u \<Rightarrow> [\<lparr> req_url = u, req_method = GET,
                         req_headers = [''Authorization'' \<mapsto> ''Bearer token''],
                         req_body = None \<rparr>])"
  by (simp add: buildUrl_def local_config_def sample_config_def WABAService_get_target_def
      WABAService_baseUrl_def WABAService_get_def respond_def bearer_def
      split: option.splits)

section \<open>Classification of failures\<close>

text \<open>
  C2, amended. When the status is outside 200..299 and the body is JSON: if the body parses as
  the error envelope, \<open>request\<close> throws the typed API error with the envelope's own
  \<open>code\<close>, \<open>message\<close>, \<open>type\<close>, \<open>error_subcode\<close> and \<open>fbtrace_id\<close>; otherwise it throws
  an \<open>Error\<close> whose message holds the status and the serialised body. When the body is
  not JSON, the \<open>SyntaxError\<close> of \<open>response.json()\<close> is what is thrown.
\<close>

theorem request_failure_classification:
  assumes "fetch e (request_call cfg path options) = Some response" and "\<not> ok response"
  shows "snd (request e cfg path options) =
     (case json_body response of
        None \<Rightarrow> Inl SyntaxError
      | Some data \<Rightarrow>
          if parse e ApiErrorSchema data = None
          then Inl (Error (''API request failed with status '' @ show_nat (status response)
                           @ '': '' @ JSON_stringify e data))
          else Inl (WhatsAppApiError
                 (getprop (getprop data ''error'') ''code'')
                 (getprop (getprop data ''error'') ''message'')
                 (getprop (getprop data ''error'') ''type'')
                 (getprop (getprop data ''error'') ''error_subcode'')
                 (getprop (getprop data ''error'') ''fbtrace_id'')))"
proof (cases "json_body response")
  case None
  then show ?thesis using assms by (simp add: request_def)
next
  case (Some data)
  show ?thesis
  proof (cases "parse e ApiErrorSchema data")
    case None
    then show ?thesis using assms Some by (simp add: request_def)
  next
    case (Some parsed)
    note p = ApiError_fields[OF Some]
    show ?thesis using assms \<open>json_body response = Some data\<close> Some
      by (simp add: request_def Let_def p)
  qed
qed

text \<open>
  The 400 answer with the \<open>OAuthException\<close> body: code 100, type \<open>OAuthException\<close>, trace
  id \<open>abc123\<close>, no subcode.
\<close>

theorem request_failure_classification_witness:
  "fetch (platform (Some (json_response 400 ''Bad Request'' invalid_parameter)))
     (request_call sample_config ''1055/messages'' get_options)
     = Some (json_response 400 ''Bad Request'' invalid_parameter)
   \<and> \<not> ok (json_response 400 ''Bad Request'' invalid_parameter)
   \<and> snd (request (platform (Some (json_response 400 ''Bad Request'' invalid_parameter)))
            sample_config ''1055/messages'' get_options)
     = Inl (WhatsAppApiError (JNum 100) (JStr ''Invalid parameter'') (JStr ''OAuthException'')
              JUndefined (JStr ''abc123''))"
proof -
  let ?r = "json_response 400 ''Bad Request'' invalid_parameter"
  let ?e = "platform (Some ?r)"
  have h1: "fetch ?e (request_call sample_config ''1055/messages'' get_options) = Some ?r"
    by (simp add: platform_def)
  have h2: "\<not> ok ?r"
    by (simp add: json_response_def ok_def)
  have j: "json_body ?r = Some invalid_parameter"
    by (simp add: json_response_def)
  have p: "parse ?e ApiErrorSchema invalid_parameter \<noteq> None"
    by (simp add: invalid_parameter_def ApiErrorSchema_def lookup_def)
  have "snd (request ?e sample_config ''1055/messages'' get_options)
     = Inl (WhatsAppApiError (JNum 100) (JStr ''Invalid parameter'') (JStr ''OAuthException'')
              JUndefined (JStr ''abc123''))"
    using request_failure_classification [OF h1 h2] j p
    by (simp add: invalid_parameter_def lookup_def)
  with h1 h2 show ?thesis by blast
qed

text \<open>
  A 502 whose body is not JSON: the status is outside the success range, yet what is
  thrown is the \<open>SyntaxError\<close>, which carries neither the status nor the body.
\<close>

theorem request_non_json_counterexample:
  "\<not> ok gateway_error
   \<and> snd (request (platform (Some gateway_error)) sample_config ''1055/messages'' get_options)
       = Inl SyntaxError"
  by (simp add: request_def platform_def gateway_error_def ok_def)

section \<open>Validation before the network\<close>




section \<open>Validation of responses\<close>

text \<open>
  C4. A 200 answer whose body does not match the response shape is never returned. The
  body \<open>{success: 'yes'}\<close> is not of the shape \<open>{success: boolean}\<close>, and
  \<open>QRCodesService.delete\<close> throws on it; \<open>QRCodesService.update\<close> and
  \<open>RegistrationService.updateSettings\<close>, declared to return the same shape, return it.
\<close>

theorem update_returns_malformed_body:
  "parse e QRCodeDeleteResponseSchema malformed_success = None
   \<and> snd (QRCodesService_update (platform (Some (json_response 200 ''OK'' malformed_success)))
            sample_config ''abc'' (JObj [(''prefilled_message'', JStr ''hi'')]))
       = Inr malformed_success
   \<and> snd (updateSettings (platform (Some (json_response 200 ''OK'' malformed_success)))
            sample_config (JObj [(''messaging_product'', JStr ''whatsapp''), (''pin'', JStr ''654321'')]))
       = Inr malformed_success
   \<and> snd (QRCodesService_delete (platform (Some (json_response 200 ''OK'' malformed_success)))
            sample_config ''abc'')
       = Inl ZodError"
  by (simp add: QRCodeDeleteResponseSchema_def malformed_success_def lookup_def
      QRCodesService_update_def parse_or_throw_def UpdateQRCodeSchema_def request_def
      platform_def json_response_def ok_def updateSettings_def QRCodesService_delete_def
      validated_def Let_def)

section \<open>Header policy\<close>

text \<open>
  C5, amended. The one call \<open>request\<close> makes carries, under each header name: the caller's
  value when the caller supplies one, a caller-supplied \<open>Authorization\<close> included, which
  then replaces the bearer header; \<open>Bearer {accessToken}\<close> under \<open>Authorization\<close> when
  the caller supplies none; and \<open>application/json\<close> under \<open>Content-Type\<close>, over any
  caller value, exactly when the body is a non-empty string. With no
  body, an empty string or a multipart form, \<open>Content-Type\<close> is as the caller gave it.
\<close>

theorem request_header_policy:
  "map (header_of k) (fst (request e cfg path options)) =
     [if k = ''Content-Type'' \<and> (\<exists>s. body options = Some (StrBody s) \<and> s \<noteq> [])
      then Some ''application/json''
      else case (case headers options of None \<Rightarrow> Map.empty | Some h \<Rightarrow> h) k of
             Some v \<Rightarrow> Some v
           | None \<Rightarrow> if k = ''Authorization'' then Some (''Bearer '' @ accessToken cfg)
                     else None]"
  by (simp add: request_calls header_of_def request_call_def request_headers_def Let_def
      map_add_def json_content_iff [symmetric] split: option.splits)

text \<open>
  A caller that passes its own \<open>Authorization\<close> header and the empty string as body: the
  call carries the caller's header, not the bearer one, and no \<open>Content-Type\<close>, although
  a body that is no multipart form is sent.
\<close>

theorem request_header_counterexample:
  "map (header_of ''Authorization'')
     (fst (request (platform None) sample_config ''1055'' override_options)) = [Some ''Basic abc'']
   \<and> map (header_of ''Content-Type'')
     (fst (request (platform None) sample_config ''1055'' override_options)) = [None]
   \<and> map req_body
     (fst (request (platform None) sample_config ''1055'' override_options)) = [Some (StrBody [])]"
  by (simp add: request_calls header_of_def request_call_def request_headers_def Let_def
      override_options_def map_add_def)

section \<open>The account identifier\<close>

text \<open>
  C6. An operation that needs the account identifier fails at once, with no HTTP call, when
  the configuration has none. \<open>getCommerceSettings\<close> does; \<open>TemplatesService.create\<close>,
  given a valid template and a configuration without the identifier, posts to
  \<open>undefined/message_templates\<close>.
\<close>

theorem create_without_wabaId:
  "wabaId sample_config = None
   \<and> map req_url (fst (TemplatesService_create e sample_config minimal_template))
       = [''https://graph.facebook.com/v21.0/undefined/message_templates'']
   \<and> getCommerceSettings e sample_config
       = ([], Inl (Error ''wabaId is required to get commerce settings''))"
  by (simp add: sample_config_def TemplatesService_create_def parse_or_throw_def
      CreateTemplateSchema_def template_categories_def minimal_template_def lookup_def
      validated_calls request_calls request_call_def buildUrl_def template_str_def
      getCommerceSettings_def no_wabaId_def)

section \<open>The two-step verification PIN\<close>

text \<open>
  C7. A PIN whose length is not 6 is rejected by \<open>setPin\<close> with a validation failure, and
  no HTTP call is made.
\<close>

theorem setPin_rejects_wrong_length:
  "length pin \<noteq> 6 \<Longrightarrow> setPin e cfg pin = ([], Inl ZodError)"
  by (simp add: setPin_def parse_or_throw_def TwoStepVerificationPinSchema_def lookup_def)

theorem setPin_rejects_wrong_length_witness:
  "length ''1234567'' \<noteq> 6 \<and> setPin (platform None) sample_config ''1234567'' = ([], Inl ZodError)"
  using setPin_rejects_wrong_length [of "''1234567''" "platform None" sample_config] by simp

section \<open>Webhook discriminators\<close>

text \<open>A change schema accepts only the \<open>field\<close> value of its literal.\<close>

lemma quality_change_field:
  assumes "parse e TemplateQualityUpdateChangeSchema v = Some w"
  shows "getprop v ''field'' = JStr ''message_template_status_update''"
proof -
  have "parse e (ZLiteral ''message_template_status_update'') (getprop v ''field'')
          = Some (getprop w ''field'')"
    using assms unfolding TemplateQualityUpdateChangeSchema_def by (rule parse_field) simp_all
  then show ?thesis by (rule parse_literal_id)
qed

lemma components_change_field:
  assumes "parse e TemplateComponentsUpdateChangeSchema v = Some w"
  shows "getprop v ''field'' = JStr ''message_template_components_update''"
proof -
  have "parse e (ZLiteral ''message_template_components_update'') (getprop v ''field'')
          = Some (getprop w ''field'')"
    using assms unfolding TemplateComponentsUpdateChangeSchema_def by (rule parse_field) simp_all
  then show ?thesis by (rule parse_literal_id)
qed

text \<open>
  C8. Each change schema accepts exactly its own discriminator. The template quality
  update schema does not: it rejects a quality update tagged
  \<open>message_template_quality_update\<close> and accepts the same value tagged
  \<open>message_template_status_update\<close>.
\<close>

theorem quality_change_wrong_literal:
  "parse e TemplateQualityUpdateChangeSchema
     (JObj [(''value'', quality_value), (''field'', JStr ''message_template_quality_update'')])
     = None
   \<and> parse e TemplateQualityUpdateChangeSchema
     (JObj [(''value'', quality_value), (''field'', JStr ''message_template_status_update'')])
     = Some (JObj [(''value'', quality_value), (''field'', JStr ''message_template_status_update'')])"
  by (simp add: TemplateQualityUpdateChangeSchema_def TemplateQualityUpdateValueSchema_def
      TemplateQualityScoreSchema_def quality_value_def lookup_def)

section \<open>Status checks\<close>




section \<open>The callback URL alias\<close>

text \<open>
  C10. \<open>updateCallbackUrl(wabaId, callbackUrl, verifyToken)\<close> is
  \<open>subscribe(wabaId, {override_callback_uri: callbackUrl, verify_token: verifyToken})\<close>:
  the same calls, the same result, the same failure.
\<close>

theorem updateCallbackUrl_is_subscribe:
  "updateCallbackUrl e cfg w callbackUrl verifyToken =
     subscribe e cfg w (JObj [(''override_callback_uri'', JStr callbackUrl),
                              (''verify_token'', optional_str verifyToken)])"
  by (simp add: updateCallbackUrl_def)

end
